theory Spec2Isabelle
  imports Main
begin

section \<open>The provider and the values exchanged with it\<close>

text \<open>
  The module \<^verbatim>\<open>endgame/exposure_via_resource_policies/iam.py\<close> talks to the provider through a
  boto3 client. A call of the client either returns a response or raises; the handlers
  of the module tell three kinds of exception apart: the client's
  \<^verbatim>\<open>NoSuchEntityException\<close> (a \<^verbatim>\<open>ClientError\<close> subclass), any other \<^verbatim>\<open>ClientError\<close>, and
  everything else, which no handler of the module catches. Each exception carries the
  text \<^verbatim>\<open>str(error)\<close> gives.
\<close>

datatype 'a outcome =
    Returns 'a
  | RaisesNoSuchEntity string
  | RaisesClientError string
  | RaisesOther string

text \<open>Exceptions that leave a method of the module.\<close>

datatype py_error =
    AttributeError
  | KeyError
  | ProviderError string

datatype level = DEBUG | CRITICAL

type_synonym log_entry = "level \<times> string"

text \<open>
  Modelled from the spec: the shape of an access-control document is the provider's and
  is declared nowhere in src/. Section 3 names it: a set of statements, each with an
  effect, principal(s), action(s), resource(s) and an optional condition block. The
  resource block is optional too (section 4.3, step 2); a principal is written as a
  principal block or as a bare account identifier (section 4.3, step 1).
\<close>

datatype effect = Allow | Deny

datatype principal = PrincipalBlock string | BareAccountId string

record statement =
  st_effect :: effect
  st_principal :: "principal list"
  st_action :: "string list"
  st_resource :: "string list option"
  st_condition :: "string option"

record policy =
  statements :: "statement list"

text \<open>
  Modelled from the spec: \<^verbatim>\<open>constants.get_empty_policy\<close> (\<^verbatim>\<open>endgame/shared/constants.py\<close>) is
  not in src/. Sections 3 and 4.1 call its value a structurally valid empty document:
  a document with no statement.
\<close>

definition get_empty_policy :: policy where
  "get_empty_policy = \<lparr>statements = []\<rparr>"

text \<open>
  A dict is a map from its keys; \<^verbatim>\<open>d.get(k)\<close> is \<open>d k\<close>, with \<open>None\<close> for Python's
  \<^verbatim>\<open>None\<close>. A listing entry is the dict of its string members, a page the dict of its
  list members, the \<^verbatim>\<open>get_role\<close> response a dict whose \<^verbatim>\<open>Role\<close> member is the dict of the
  role's document members.
\<close>

type_synonym role = "string \<rightharpoonup> string"

type_synonym page = "string \<rightharpoonup> role list"

type_synonym role_detail = "string \<rightharpoonup> policy"

type_synonym get_role_response = "string \<rightharpoonup> role_detail"

text \<open>
  The client: \<^verbatim>\<open>get_role(RoleName=...)\<close>,
  \<^verbatim>\<open>update_assume_role_policy(RoleName=..., PolicyDocument=...)\<close>, and the pages that
  \<^verbatim>\<open>get_paginator("list_roles").paginate()\<close> yields until the provider signals that no
  more remain.
\<close>

record client =
  get_role :: "string \<Rightarrow> get_role_response outcome"
  update_assume_role_policy :: "string \<Rightarrow> string \<Rightarrow> unit outcome"
  list_roles_pages :: "page list"

section \<open>Value objects\<close>

text \<open>
  The classes \<^verbatim>\<open>PolicyDocument\<close>, \<^verbatim>\<open>ResponseGetRbp\<close>, \<^verbatim>\<open>ResponseMessage\<close> and
  \<^verbatim>\<open>ListResourcesResponse\<close> are built in iam.py by keyword; each is the record of the
  arguments it is built with. A \<^verbatim>\<open>PolicyDocument\<close> receives the local \<^verbatim>\<open>policy\<close>, which is
  \<^verbatim>\<open>None\<close> when the provider's \<^verbatim>\<open>Role\<close> has no \<^verbatim>\<open>AssumeRolePolicyDocument\<close> member.
\<close>

record PolicyDocument =
  pd_policy :: "policy option"
  pd_service :: string
  pd_override_action :: "string option"
  pd_include_resource_block :: bool
  pd_override_resource_block :: "string option"
  pd_override_account_id_instead_of_principal :: bool

record ResponseGetRbp =
  policy_document :: PolicyDocument
  success :: bool

record ResponseMessage =
  rm_message :: string
  rm_operation :: string
  rm_success :: bool
  rm_evil_principal :: string
  rm_victim_resource_arn :: string
  rm_original_policy :: policy
  rm_updated_policy :: policy
  rm_resource_type :: string
  rm_resource_name :: string
  rm_service :: string

record ListResourcesResponse =
  lr_service :: string
  lr_account_id :: string
  lr_arn :: "string option"
  lr_region :: string
  lr_resource_type :: string
  lr_name :: "string option"

section \<open>IAMRole\<close>

text \<open>The attributes of an \<^verbatim>\<open>IAMRole\<close> instance.\<close>

record IAMRole =
  name :: string
  resource_type :: string
  service :: string
  region :: string
  client :: client
  current_account_id :: string
  include_resource_block :: bool
  override_action :: "string option"
  override_resource_block :: "string option"
  override_account_id_instead_of_principal :: bool
  original_policy :: policy

text \<open>
  Modelled from the spec: \<^verbatim>\<open>ResourceType.__init__\<close>
  (\<^verbatim>\<open>endgame/exposure_via_resource_policies/common.py\<close>) is not in src/. Section 3: the
  identity and the behavioural flags are set at construction, and the instance retains
  the policy as read in \<^verbatim>\<open>original_policy\<close>. The constructor stores what it is given. What
  it stores for the two flags \<^verbatim>\<open>IAMRole\<close> does not pass, and the policy it retains, are
  parameters here.
\<close>

definition ResourceType_init ::
  "string \<Rightarrow> string \<Rightarrow> string \<Rightarrow> string \<Rightarrow> client \<Rightarrow> string \<Rightarrow> bool \<Rightarrow> string option \<Rightarrow>
   string option \<Rightarrow> bool \<Rightarrow> policy \<Rightarrow> IAMRole" where
  "ResourceType_init nm rtype svc rgn cl acct incl act dflt_resource_block dflt_account_id orig =
     \<lparr>name = nm, resource_type = rtype, service = svc, region = rgn, client = cl,
      current_account_id = acct, include_resource_block = incl, override_action = act,
      override_resource_block = dflt_resource_block,
      override_account_id_instead_of_principal = dflt_account_id,
      original_policy = orig\<rparr>"

text \<open>
  \<^verbatim>\<open>IAMRole.__init__\<close>: the service is \<^verbatim>\<open>"iam"\<close>, the resource type \<^verbatim>\<open>"role"\<close>, the resource
  block is left out and the action is \<^verbatim>\<open>"sts:AssumeRole"\<close>; these go to the parent's
  constructor with the name, the region, the client and the account.
\<close>

definition IAMRole_init ::
  "string \<Rightarrow> string \<Rightarrow> client \<Rightarrow> string \<Rightarrow> string option \<Rightarrow> bool \<Rightarrow> policy \<Rightarrow> IAMRole" where
  "IAMRole_init nm rgn cl acct dflt_resource_block dflt_account_id orig =
     (let svc = ''iam'';
          rtype = ''role'';
          incl = False;
          act = Some ''sts:AssumeRole''
      in ResourceType_init nm rtype svc rgn cl acct incl act
           dflt_resource_block dflt_account_id orig)"

definition arn :: "IAMRole \<Rightarrow> string" where
  "arn self =
     ''arn:aws:'' @ service self @ ''::'' @ current_account_id self @ '':'' @
     resource_type self @ ''/'' @ name self"

text \<open>
  What a method call leaves behind: the value it returns or the exception it raises, the
  instance after the call, and the records it wrote to the logger.
\<close>

record 'a call_result =
  returned :: "py_error + 'a"
  self_after :: IAMRole
  logged :: "log_entry list"

text \<open>
  \<^verbatim>\<open>IAMRole._get_rbp\<close>. \<^verbatim>\<open>response.get("Role")\<close> is \<^verbatim>\<open>None\<close> when the member is missing, and
  \<^verbatim>\<open>.get\<close> on \<^verbatim>\<open>None\<close> raises \<^verbatim>\<open>AttributeError\<close>, which neither handler catches. The method
  assigns no attribute of the instance.
\<close>

definition get_rbp :: "IAMRole \<Rightarrow> ResponseGetRbp call_result" where
  "get_rbp self =
     (let log0 = [(DEBUG, ''Getting resource policy for '' @ arn self)];
          build = (\<lambda>pol succ.
            \<lparr>policy_document =
               \<lparr>pd_policy = pol,
                pd_service = service self,
                pd_override_action = override_action self,
                pd_include_resource_block = include_resource_block self,
                pd_override_resource_block = override_resource_block self,
                pd_override_account_id_instead_of_principal =
                  override_account_id_instead_of_principal self\<rparr>,
              success = succ\<rparr>)
      in case get_role (client self) (name self) of
           Returns response \<Rightarrow>
             (case response ''Role'' of
                None \<Rightarrow> \<lparr>returned = Inl AttributeError, self_after = self, logged = log0\<rparr>
              | Some detail \<Rightarrow>
                  \<lparr>returned = Inr (build (detail ''AssumeRolePolicyDocument'') True),
                   self_after = self, logged = log0\<rparr>)
         | RaisesNoSuchEntity e \<Rightarrow>
             \<lparr>returned = Inr (build (Some get_empty_policy) False),
              self_after = self,
              logged = log0 @
                [(CRITICAL, ''There is no resource with the name '' @ name self)]\<rparr>
         | RaisesClientError e \<Rightarrow>
             \<lparr>returned = Inr (build (Some get_empty_policy) False),
              self_after = self, logged = log0\<rparr>
         | RaisesOther e \<Rightarrow>
             \<lparr>returned = Inl (ProviderError e), self_after = self, logged = log0\<rparr>)"

text \<open>
  \<^verbatim>\<open>IAMRole.set_rbp\<close>. \<^verbatim>\<open>json.dumps\<close> is the parameter \<open>json_dumps\<close>. The handler catches
  \<^verbatim>\<open>ClientError\<close>, hence \<^verbatim>\<open>NoSuchEntityException\<close> as well; the message is \<^verbatim>\<open>str(error)\<close>.
  The method assigns no attribute of the instance.
\<close>

definition set_rbp :: "(policy \<Rightarrow> string) \<Rightarrow> IAMRole \<Rightarrow> policy \<Rightarrow> ResponseMessage call_result" where
  "set_rbp json_dumps self evil_policy =
     (let log0 = [(DEBUG, ''Setting resource policy for '' @ arn self)];
          new_policy = json_dumps evil_policy;
          response_message = (\<lambda>msg succ.
            \<lparr>rm_message = msg, rm_operation = ''set_rbp'', rm_success = succ,
             rm_evil_principal = '''',
             rm_victim_resource_arn = arn self,
             rm_original_policy = original_policy self,
             rm_updated_policy = evil_policy,
             rm_resource_type = resource_type self,
             rm_resource_name = name self,
             rm_service = service self\<rparr>)
      in case update_assume_role_policy (client self) (name self) new_policy of
           Returns u \<Rightarrow>
             \<lparr>returned = Inr (response_message ''success'' True),
              self_after = self, logged = log0\<rparr>
         | RaisesNoSuchEntity e \<Rightarrow>
             \<lparr>returned = Inr (response_message e False),
              self_after = self, logged = log0 @ [(CRITICAL, e)]\<rparr>
         | RaisesClientError e \<Rightarrow>
             \<lparr>returned = Inr (response_message e False),
              self_after = self, logged = log0 @ [(CRITICAL, e)]\<rparr>
         | RaisesOther e \<Rightarrow>
             \<lparr>returned = Inl (ProviderError e), self_after = self, logged = log0\<rparr>)"

text \<open>A later call of either method, and the instance after a sequence of such calls.\<close>

datatype call = GetPolicy | SetPolicy policy

fun after_call :: "(policy \<Rightarrow> string) \<Rightarrow> IAMRole \<Rightarrow> call \<Rightarrow> IAMRole" where
  "after_call json_dumps self GetPolicy = self_after (get_rbp self)"
| "after_call json_dumps self (SetPolicy evil_policy) =
     self_after (set_rbp json_dumps self evil_policy)"

fun after_calls :: "(policy \<Rightarrow> string) \<Rightarrow> IAMRole \<Rightarrow> call list \<Rightarrow> IAMRole" where
  "after_calls json_dumps self [] = self"
| "after_calls json_dumps self (c # cs) =
     after_calls json_dumps (after_call json_dumps self c) cs"

section \<open>IAMRoles\<close>

record IAMRoles =
  roles_client :: client
  roles_current_account_id :: string
  roles_region :: string
  roles_service :: string
  roles_resource_type :: string

text \<open>
  Modelled from the spec: \<^verbatim>\<open>ResourceTypes.__init__\<close>
  (\<^verbatim>\<open>endgame/exposure_via_resource_policies/common.py\<close>) is not in src/. Section 4.2: the
  catalog enumerates the instances of a kind in an account and region with a client; the
  parent's constructor stores the client, the account and the region it is given.
  \<^verbatim>\<open>IAMRoles.__init__\<close> then sets the service and the resource type.
\<close>

definition IAMRoles_init :: "client \<Rightarrow> string \<Rightarrow> string \<Rightarrow> IAMRoles" where
  "IAMRoles_init cl acct rgn =
     \<lparr>roles_client = cl, roles_current_account_id = acct, roles_region = rgn,
      roles_service = ''iam'', roles_resource_type = ''role''\<rparr>"

text \<open>\<^verbatim>\<open>str.startswith\<close>.\<close>

definition startswith :: "string \<Rightarrow> string \<Rightarrow> bool" where
  "startswith s p = (take (length p) s = p)"

text \<open>The \<^verbatim>\<open>ListResourcesResponse\<close> the loop body builds for a listing entry.\<close>

definition list_resources_response :: "IAMRoles \<Rightarrow> role \<Rightarrow> ListResourcesResponse" where
  "list_resources_response self r =
     \<lparr>lr_service = roles_service self,
      lr_account_id = roles_current_account_id self,
      lr_arn = r ''Arn'',
      lr_region = roles_region self,
      lr_resource_type = roles_resource_type self,
      lr_name = r ''RoleName''\<rparr>"

text \<open>
  The inner loop of \<^verbatim>\<open>IAMRoles.resources\<close> over the roles of one page. \<^verbatim>\<open>role.get("Path")\<close> is
  \<^verbatim>\<open>None\<close> when the member is missing, and \<^verbatim>\<open>None.startswith\<close> raises \<^verbatim>\<open>AttributeError\<close>.
\<close>

fun roles_loop ::
  "IAMRoles \<Rightarrow> role list \<Rightarrow> ListResourcesResponse list \<Rightarrow> py_error + ListResourcesResponse list" where
  "roles_loop self [] resources = Inr resources"
| "roles_loop self (r # roles) resources =
     (case r ''Path'' of
        None \<Rightarrow> Inl AttributeError
      | Some path \<Rightarrow>
          if startswith path ''/aws-service-role/'' then roles_loop self roles resources
          else roles_loop self roles (resources @ [list_resources_response self r]))"

text \<open>The outer loop over the pages; \<^verbatim>\<open>page["Roles"]\<close> raises \<^verbatim>\<open>KeyError\<close> on a missing key.\<close>

fun pages_loop ::
  "IAMRoles \<Rightarrow> page list \<Rightarrow> ListResourcesResponse list \<Rightarrow> py_error + ListResourcesResponse list" where
  "pages_loop self [] resources = Inr resources"
| "pages_loop self (pg # pages) resources =
     (case pg ''Roles'' of
        None \<Rightarrow> Inl KeyError
      | Some roles \<Rightarrow>
          (case roles_loop self roles resources of
             Inl e \<Rightarrow> Inl e
           | Inr resources' \<Rightarrow> pages_loop self pages resources'))"

definition resources :: "IAMRoles \<Rightarrow> py_error + ListResourcesResponse list" where
  "resources self = pages_loop self (list_roles_pages (roles_client self)) []"

section \<open>Grant injection\<close>

text \<open>
  Modelled from the spec: the grant injection of \<^verbatim>\<open>PolicyDocument\<close>
  (\<^verbatim>\<open>endgame/shared/policy_document.py\<close>) is not in src/. Section 3: a document built from
  an absent source policy is the empty document. Section 4.3: the new statement has
  effect allow; its principal is the evil principal, as a principal block, or as a bare
  account identifier when \<^verbatim>\<open>override_account_id_instead_of_principal\<close> is set; its action
  is \<^verbatim>\<open>override_action\<close> if set, else a wildcard over the service's namespace; it has a
  resource block naming the instance's arn only if \<^verbatim>\<open>include_resource_block\<close> is true;
  and it is appended to the existing statement list.
\<close>

definition document_statements :: "PolicyDocument \<Rightarrow> statement list" where
  "document_statements pd = (case pd_policy pd of None \<Rightarrow> [] | Some p \<Rightarrow> statements p)"

definition evil_statement :: "PolicyDocument \<Rightarrow> string \<Rightarrow> string \<Rightarrow> statement" where
  "evil_statement pd evil_principal resource_arn =
     \<lparr>st_effect = Allow,
      st_principal =
        [if pd_override_account_id_instead_of_principal pd
         then BareAccountId evil_principal else PrincipalBlock evil_principal],
      st_action =
        [case pd_override_action pd of Some a \<Rightarrow> a | None \<Rightarrow> pd_service pd @ '':*''],
      st_resource = (if pd_include_resource_block pd then Some [resource_arn] else None),
      st_condition = None\<rparr>"

definition inject_grant :: "PolicyDocument \<Rightarrow> string \<Rightarrow> string \<Rightarrow> policy" where
  "inject_grant pd evil_principal resource_arn =
     \<lparr>statements = document_statements pd @ [evil_statement pd evil_principal resource_arn]\<rparr>"

section \<open>Vocabulary of the enumeration properties\<close>

text \<open>
  The entries a run lists, in the order the pages yield them; the number of roles of a
  page; the entries the path filter drops; and the runs in which every page has its
  \<^verbatim>\<open>Roles\<close> and every entry its \<^verbatim>\<open>Path\<close>.
\<close>

definition page_roles :: "page \<Rightarrow> role list" where
  "page_roles pg = (case pg ''Roles'' of None \<Rightarrow> [] | Some roles \<Rightarrow> roles)"

definition listed :: "page list \<Rightarrow> role list" where
  "listed pages = concat (map page_roles pages)"

definition service_linked :: "role \<Rightarrow> bool" where
  "service_linked r =
     (case r ''Path'' of None \<Rightarrow> False | Some path \<Rightarrow> startswith path ''/aws-service-role/'')"

definition kept :: "IAMRoles \<Rightarrow> role list \<Rightarrow> ListResourcesResponse list" where
  "kept self roles = map (list_resources_response self) (filter (\<lambda>r. \<not> service_linked r) roles)"

definition has_path :: "role \<Rightarrow> bool" where
  "has_path r = (r ''Path'' \<noteq> None)"

definition has_roles :: "page \<Rightarrow> bool" where
  "has_roles pg = (pg ''Roles'' \<noteq> None)"

definition well_formed :: "page list \<Rightarrow> bool" where
  "well_formed pages = (list_all has_roles pages \<and> list_all has_path (listed pages))"

section \<open>Examples\<close>

text \<open>
  A role \<^verbatim>\<open>deploy-role\<close> whose trust document grants one principal, with a provider that
  accepts every write, and the listing of an account in two pages.
\<close>

definition trust_statement :: statement where
  "trust_statement =
     \<lparr>st_effect = Allow, st_principal = [PrincipalBlock ''ec2.amazonaws.com''],
      st_action = [''sts:AssumeRole''], st_resource = None, st_condition = None\<rparr>"

definition trust_policy :: policy where
  "trust_policy = \<lparr>statements = [trust_statement]\<rparr>"

definition role_entry :: "string \<Rightarrow> string \<Rightarrow> string \<Rightarrow> role" where
  "role_entry path a nm = [''Path'' \<mapsto> path, ''Arn'' \<mapsto> a, ''RoleName'' \<mapsto> nm]"

definition linked_entry :: role where
  "linked_entry =
     role_entry ''/aws-service-role/org-linked/'' ''arn:aws:iam::999999999999:role/deploy-role''
       ''deploy-role''"

definition plain_entry :: role where
  "plain_entry = role_entry ''/'' ''arn:aws:iam::999999999999:role/deploy-role'' ''deploy-role''"

definition other_entry :: role where
  "other_entry = role_entry ''/team/'' ''arn:aws:iam::111111111111:role/build'' ''build''"

definition nameless_entry :: role where
  "nameless_entry = [''Path'' \<mapsto> ''/'']"

definition pathless_entry :: role where
  "pathless_entry = [''Arn'' \<mapsto> ''arn:aws:iam::111111111111:role/odd'', ''RoleName'' \<mapsto> ''odd'']"

definition trust_detail :: role_detail where
  "trust_detail = [''AssumeRolePolicyDocument'' \<mapsto> trust_policy]"

definition trust_response :: get_role_response where
  "trust_response = [''Role'' \<mapsto> trust_detail]"

definition accepting_client :: "page list \<Rightarrow> client" where
  "accepting_client pages =
     \<lparr>get_role = (\<lambda>nm. Returns trust_response),
      update_assume_role_policy = (\<lambda>nm doc. Returns ()),
      list_roles_pages = pages\<rparr>"

definition rejecting_client :: client where
  "rejecting_client =
     \<lparr>get_role = (\<lambda>nm. RaisesClientError ''AccessDenied''),
      update_assume_role_policy = (\<lambda>nm doc. RaisesClientError ''MalformedPolicyDocument''),
      list_roles_pages = []\<rparr>"

definition vanished_client :: client where
  "vanished_client =
     \<lparr>get_role = (\<lambda>nm. RaisesNoSuchEntity ''NoSuchEntity''),
      update_assume_role_policy = (\<lambda>nm doc. RaisesNoSuchEntity ''NoSuchEntity''),
      list_roles_pages = []\<rparr>"




definition deploy_role :: "client \<Rightarrow> IAMRole" where
  "deploy_role cl = IAMRole_init ''deploy-role'' ''us-east-1'' cl ''111111111111'' None False trust_policy"

definition two_pages :: "page list" where
  "two_pages = [ [''Roles'' \<mapsto> [linked_entry, plain_entry]], [''Roles'' \<mapsto> [other_entry]] ]"

definition catalog :: "page list \<Rightarrow> IAMRoles" where
  "catalog pages = IAMRoles_init (accepting_client pages) ''111111111111'' ''us-east-1''"

definition three_roles_page :: "role \<Rightarrow> page list" where
  "three_roles_page r = [ [''Roles'' \<mapsto> [plain_entry, r, other_entry]] ]"

definition evil_trust_statement :: statement where
  "evil_trust_statement =
     \<lparr>st_effect = Allow, st_principal = [PrincipalBlock ''evil-corp''],
      st_action = [''sts:AssumeRole''], st_resource = None, st_condition = None\<rparr>"

definition backdoored_policy :: policy where
  "backdoored_policy = \<lparr>statements = [trust_statement, evil_trust_statement]\<rparr>"

definition plain_dumps :: "policy \<Rightarrow> string" where
  "plain_dumps p = replicate (length (statements p)) CHR ''s''"

section \<open>Auxiliary facts\<close>

lemmas fixture_defs =
  deploy_role_def accepting_client_def rejecting_client_def vanished_client_def
  IAMRole_init_def ResourceType_init_def trust_policy_def trust_statement_def
  backdoored_policy_def evil_trust_statement_def plain_dumps_def

lemma after_call_self: "after_call json_dumps self c = self"
  by (cases c) (simp_all add: get_rbp_def set_rbp_def Let_def split: outcome.splits option.splits)

lemma after_calls_self: "after_calls json_dumps self cs = self"
  by (induction cs arbitrary: self) (simp_all add: after_call_self)

lemma get_rbp_flags:
  assumes "returned (get_rbp self) = Inr r"
  shows "pd_include_resource_block (policy_document r) = include_resource_block self"
    and "pd_override_action (policy_document r) = override_action self"
    and "pd_override_resource_block (policy_document r) = override_resource_block self"
    and "pd_override_account_id_instead_of_principal (policy_document r) =
           override_account_id_instead_of_principal self"
    and "pd_service (policy_document r) = service self"
  using assms
  by (auto simp: get_rbp_def Let_def split: outcome.splits option.splits)



lemma get_rbp_success:
  assumes "get_role (client self) (name self) = Returns response"
    and "response ''Role'' = Some detail"
  shows "returned (get_rbp self) =
           Inr \<lparr>policy_document =
                 \<lparr>pd_policy = detail ''AssumeRolePolicyDocument'', pd_service = service self,
                  pd_override_action = override_action self,
                  pd_include_resource_block = include_resource_block self,
                  pd_override_resource_block = override_resource_block self,
                  pd_override_account_id_instead_of_principal =
                    override_account_id_instead_of_principal self\<rparr>,
                success = True\<rparr>"
  using assms by (simp add: get_rbp_def Let_def)


lemma deploy_role_fields:
  "name (deploy_role cl) = ''deploy-role''"
  "client (deploy_role cl) = cl"
  "service (deploy_role cl) = ''iam''"
  "resource_type (deploy_role cl) = ''role''"
  "current_account_id (deploy_role cl) = ''111111111111''"
  "include_resource_block (deploy_role cl) = False"
  "override_action (deploy_role cl) = Some ''sts:AssumeRole''"
  "override_resource_block (deploy_role cl) = None"
  "override_account_id_instead_of_principal (deploy_role cl) = False"
  "original_policy (deploy_role cl) = trust_policy"
  by (simp_all add: deploy_role_def IAMRole_init_def ResourceType_init_def)

lemma deploy_role_arn: "arn (deploy_role cl) = ''arn:aws:iam::111111111111:role/deploy-role''"
  by (simp add: arn_def deploy_role_fields)

lemma IAMRole_init_flags:
  "include_resource_block (IAMRole_init nm rgn cl acct d1 d2 orig) = False"
  "override_action (IAMRole_init nm rgn cl acct d1 d2 orig) = Some ''sts:AssumeRole''"
  by (simp_all add: IAMRole_init_def ResourceType_init_def)

lemma roles_loop_wf:
  "list_all has_path roles \<Longrightarrow> roles_loop self roles acc = Inr (acc @ kept self roles)"
  by (induction roles arbitrary: acc)
     (auto simp: kept_def has_path_def service_linked_def split: option.splits)

lemma roles_loop_Inr:
  "roles_loop self roles acc = Inr rs \<Longrightarrow> list_all has_path roles"
  by (induction roles arbitrary: acc)
     (auto simp: has_path_def split: option.splits if_splits)

lemma pages_loop_wf:
  "well_formed pages \<Longrightarrow> pages_loop self pages acc = Inr (acc @ kept self (listed pages))"
proof (induction pages arbitrary: acc)
  case Nil
  then show ?case by (simp add: kept_def listed_def)
next
  case (Cons pg pages)
  from Cons.prems obtain roles where r: "pg ''Roles'' = Some roles"
    by (auto simp: well_formed_def has_roles_def)
  from Cons.prems r have hp: "list_all has_path roles" and wf: "well_formed pages"
    by (auto simp: well_formed_def listed_def page_roles_def)
  have "listed (pg # pages) = roles @ listed pages"
    using r by (simp add: listed_def page_roles_def)
  then show ?case
    using r roles_loop_wf [OF hp] Cons.IH [OF wf] by (simp add: kept_def)
qed

lemma pages_loop_Inr:
  "pages_loop self pages acc = Inr rs \<Longrightarrow> well_formed pages"
proof (induction pages arbitrary: acc)
  case Nil
  then show ?case by (simp add: well_formed_def listed_def)
next
  case (Cons pg pages)
  from Cons.prems obtain roles where r: "pg ''Roles'' = Some roles"
    by (auto split: option.splits)
  from Cons.prems r obtain mid where m: "roles_loop self roles acc = Inr mid"
    and rest: "pages_loop self pages mid = Inr rs"
    by (auto split: sum.splits)
  from roles_loop_Inr [OF m] Cons.IH [OF rest] r show ?case
    by (simp add: well_formed_def listed_def page_roles_def has_roles_def)
qed

lemma resources_well_formed:
  assumes "well_formed (list_roles_pages (roles_client self))"
  shows "resources self = Inr (kept self (listed (list_roles_pages (roles_client self))))"
  using pages_loop_wf [OF assms, of self "[]"] by (simp add: resources_def)

lemma resources_Inr:
  assumes "resources self = Inr rs"
  shows "well_formed (list_roles_pages (roles_client self))"
    and "rs = kept self (listed (list_roles_pages (roles_client self)))"
proof -
  from assms show wf: "well_formed (list_roles_pages (roles_client self))"
    unfolding resources_def by (rule pages_loop_Inr)
  from resources_well_formed [OF wf] assms
  show "rs = kept self (listed (list_roles_pages (roles_client self)))" by simp
qed

lemma kept_append: "kept self (xs @ ys) = kept self xs @ kept self ys"
  by (simp add: kept_def)

lemma kept_single:
  "r ''Path'' = Some path \<Longrightarrow>
   kept self [r] =
     (if startswith path ''/aws-service-role/'' then [] else [list_resources_response self r])"
  by (simp add: kept_def service_linked_def)

lemma length_kept:
  "length (kept self roles) + length (filter service_linked roles) = length roles"
  by (simp add: kept_def sum_length_filter_compl add.commute)

lemma length_listed: "length (listed pages) = sum_list (map (\<lambda>pg. length (page_roles pg)) pages)"
  by (simp add: listed_def length_concat comp_def)

lemma distinct_kept:
  assumes "distinct (map (\<lambda>r. (r ''Arn'', r ''RoleName'')) (filter (\<lambda>r. \<not> service_linked r) roles))"
  shows "distinct (kept self roles)"
proof -
  let ?ys = "filter (\<lambda>r. \<not> service_linked r) roles"
  from assms have d: "distinct ?ys" and i: "inj_on (\<lambda>r. (r ''Arn'', r ''RoleName'')) (set ?ys)"
    by (simp_all add: distinct_map)
  have "inj_on (list_resources_response self) (set ?ys)"
  proof (rule inj_onI)
    fix x y
    assume x: "x \<in> set ?ys" and y: "y \<in> set ?ys"
      and e: "list_resources_response self x = list_resources_response self y"
    from e have "(x ''Arn'', x ''RoleName'') = (y ''Arn'', y ''RoleName'')"
      by (simp add: list_resources_response_def)
    with i x y show "x = y" by (auto dest: inj_onD)
  qed
  with d show ?thesis by (simp add: kept_def distinct_map)
qed

lemma catalog_fields:
  "roles_client (catalog pages) = accepting_client pages"
  "list_roles_pages (accepting_client pages) = pages"
  "roles_current_account_id (catalog pages) = ''111111111111''"
  "roles_region (catalog pages) = ''us-east-1''"
  "roles_service (catalog pages) = ''iam''"
  "roles_resource_type (catalog pages) = ''role''"
  by (simp_all add: catalog_def IAMRoles_init_def accepting_client_def)

lemma entry_paths:
  "linked_entry ''Path'' = Some ''/aws-service-role/org-linked/''"
  "plain_entry ''Path'' = Some ''/''"
  "other_entry ''Path'' = Some ''/team/''"
  "nameless_entry ''Path'' = Some ''/''"
  "pathless_entry ''Path'' = None"
  by (simp_all add: linked_entry_def plain_entry_def other_entry_def nameless_entry_def
        pathless_entry_def role_entry_def)

lemma entry_linked:
  "service_linked linked_entry" "\<not> service_linked plain_entry" "\<not> service_linked other_entry"
  "\<not> service_linked nameless_entry" "\<not> service_linked pathless_entry"
  by (simp_all add: service_linked_def entry_paths startswith_def)

lemma entry_has_path:
  "has_path linked_entry" "has_path plain_entry" "has_path other_entry"
  "has_path nameless_entry" "\<not> has_path pathless_entry"
  by (simp_all add: has_path_def entry_paths)

lemma listed_two_pages: "listed two_pages = [linked_entry, plain_entry, other_entry]"
  by (simp add: listed_def two_pages_def page_roles_def)

lemma well_formed_two_pages: "well_formed two_pages"
  by (simp add: well_formed_def listed_two_pages entry_has_path)
     (simp add: two_pages_def has_roles_def)

lemma listed_three_roles_page: "listed (three_roles_page r) = [plain_entry, r, other_entry]"
  by (simp add: listed_def three_roles_page_def page_roles_def)

lemma well_formed_three_roles_page: "well_formed (three_roles_page r) = has_path r"
  by (simp add: well_formed_def listed_three_roles_page entry_has_path)
     (simp add: three_roles_page_def has_roles_def)

lemma entry_responses:
  "list_resources_response (catalog pages) plain_entry =
     \<lparr>lr_service = ''iam'', lr_account_id = ''111111111111'',
      lr_arn = Some ''arn:aws:iam::999999999999:role/deploy-role'', lr_region = ''us-east-1'',
      lr_resource_type = ''role'', lr_name = Some ''deploy-role''\<rparr>"
  "list_resources_response (catalog pages) other_entry =
     \<lparr>lr_service = ''iam'', lr_account_id = ''111111111111'',
      lr_arn = Some ''arn:aws:iam::111111111111:role/build'', lr_region = ''us-east-1'',
      lr_resource_type = ''role'', lr_name = Some ''build''\<rparr>"
  "list_resources_response (catalog pages) nameless_entry =
     \<lparr>lr_service = ''iam'', lr_account_id = ''111111111111'',
      lr_arn = None, lr_region = ''us-east-1'',
      lr_resource_type = ''role'', lr_name = None\<rparr>"
  by (simp_all add: list_resources_response_def catalog_fields plain_entry_def other_entry_def
        nameless_entry_def role_entry_def)

section \<open>The properties\<close>

text \<open>
  C1. Grant injection is additive. For every policy document, with \<open>N\<close> statements, the
  injected document has exactly \<open>N + 1\<close> statements: its first \<open>N\<close> statements are the
  original ones, unchanged and in their order, and the single statement after them is the
  new one. The statements of a document built from a policy \<open>p\<close> are those of \<open>p\<close>.
\<close>
theorem grant_injection_additive:
  "length (statements (inject_grant pd evil_principal resource_arn))
     = length (document_statements pd) + 1
   \<and> take (length (document_statements pd))
       (statements (inject_grant pd evil_principal resource_arn)) = document_statements pd
   \<and> drop (length (document_statements pd))
       (statements (inject_grant pd evil_principal resource_arn))
     = [evil_statement pd evil_principal resource_arn]
   \<and> document_statements (pd\<lparr>pd_policy := Some p\<rparr>) = statements p"
  by (simp add: inject_grant_def document_statements_def)

text \<open>
  C2. For every resource instance, the statement injected into the document that
  \<^verbatim>\<open>_get_rbp\<close> returns names the instance's arn, and nothing else, in its resource block
  when \<^verbatim>\<open>include_resource_block\<close> is true, and has no resource block when it is false.
  \<^verbatim>\<open>IAMRole.__init__\<close> sets \<^verbatim>\<open>include_resource_block\<close> to false and \<^verbatim>\<open>override_action\<close> to
  \<^verbatim>\<open>"sts:AssumeRole"\<close>; hence a grant injected into a role's trust document is appended
  to the existing statements, has no resource block, and its action is
  \<^verbatim>\<open>"sts:AssumeRole"\<close>.
\<close>
theorem injected_resource_block:
  "(\<forall>r. returned (get_rbp self) = Inr r \<longrightarrow>
      st_resource (evil_statement (policy_document r) evil_principal (arn self))
        = (if include_resource_block self then Some [arn self] else None))
   \<and> include_resource_block (IAMRole_init nm rgn cl acct d1 d2 orig) = False
   \<and> override_action (IAMRole_init nm rgn cl acct d1 d2 orig) = Some ''sts:AssumeRole''
   \<and> (\<forall>r. returned (get_rbp (IAMRole_init nm rgn cl acct d1 d2 orig)) = Inr r \<longrightarrow>
        statements (inject_grant (policy_document r) evil_principal
            (arn (IAMRole_init nm rgn cl acct d1 d2 orig)))
          = document_statements (policy_document r) @
            [evil_statement (policy_document r) evil_principal
               (arn (IAMRole_init nm rgn cl acct d1 d2 orig))]
      \<and> st_resource (evil_statement (policy_document r) evil_principal
            (arn (IAMRole_init nm rgn cl acct d1 d2 orig))) = None
      \<and> st_action (evil_statement (policy_document r) evil_principal
            (arn (IAMRole_init nm rgn cl acct d1 d2 orig))) = [''sts:AssumeRole''])"
proof (intro conjI allI impI)
  fix r
  assume "returned (get_rbp self) = Inr r"
  from get_rbp_flags(1) [OF this]
  show "st_resource (evil_statement (policy_document r) evil_principal (arn self))
        = (if include_resource_block self then Some [arn self] else None)"
    by (simp add: evil_statement_def)
next
  show "include_resource_block (IAMRole_init nm rgn cl acct d1 d2 orig) = False"
    by (rule IAMRole_init_flags)
  show "override_action (IAMRole_init nm rgn cl acct d1 d2 orig) = Some ''sts:AssumeRole''"
    by (rule IAMRole_init_flags)
next
  fix r
  let ?role = "IAMRole_init nm rgn cl acct d1 d2 orig"
  assume h: "returned (get_rbp ?role) = Inr r"
  show "statements (inject_grant (policy_document r) evil_principal (arn ?role))
          = document_statements (policy_document r) @
            [evil_statement (policy_document r) evil_principal (arn ?role)]"
    by (simp add: inject_grant_def)
  from get_rbp_flags(1) [OF h]
  show "st_resource (evil_statement (policy_document r) evil_principal (arn ?role)) = None"
    by (simp add: evil_statement_def IAMRole_init_flags)
  from get_rbp_flags(2) [OF h]
  show "st_action (evil_statement (policy_document r) evil_principal (arn ?role))
          = [''sts:AssumeRole'']"
    by (simp add: evil_statement_def IAMRole_init_flags)
qed

theorem injected_resource_block_witness:
  "(\<exists>r. returned (get_rbp (deploy_role (accepting_client []))) = Inr r
      \<and> statements (inject_grant (policy_document r) ''evil-corp''
           (arn (deploy_role (accepting_client []))))
        = [trust_statement,
           \<lparr>st_effect = Allow, st_principal = [PrincipalBlock ''evil-corp''],
            st_action = [''sts:AssumeRole''], st_resource = None, st_condition = None\<rparr>])
   \<and> (\<exists>r. returned (get_rbp ((deploy_role (accepting_client []))
                \<lparr>include_resource_block := True\<rparr>)) = Inr r
      \<and> st_resource (evil_statement (policy_document r) ''evil-corp''
           (arn ((deploy_role (accepting_client []))\<lparr>include_resource_block := True\<rparr>)))
        = Some [''arn:aws:iam::111111111111:role/deploy-role''])"
proof -
  let ?other = "(deploy_role (accepting_client []))\<lparr>include_resource_block := True\<rparr>"
  have g': "get_role (client ?other) (name ?other) = Returns trust_response"
    by (simp add: deploy_role_fields accepting_client_def)
  have ro': "trust_response ''Role'' = Some trust_detail"
    by (simp add: trust_response_def)
  from get_rbp_success [OF g' ro'] obtain r' where
    r': "returned (get_rbp ?other) = Inr r'"
    by simp
  have a': "arn ?other = ''arn:aws:iam::111111111111:role/deploy-role''"
    by (simp add: arn_def deploy_role_fields)
  from injected_resource_block [of ?other "''evil-corp''"] r'
  have "st_resource (evil_statement (policy_document r') ''evil-corp'' (arn ?other))
        = (if include_resource_block ?other then Some [arn ?other] else None)"
    by blast
  then have "st_resource (evil_statement (policy_document r') ''evil-corp'' (arn ?other))
        = Some [''arn:aws:iam::111111111111:role/deploy-role'']"
    by (simp add: a')
  with r' have second: "\<exists>r. returned (get_rbp ?other) = Inr r
      \<and> st_resource (evil_statement (policy_document r) ''evil-corp'' (arn ?other))
        = Some [''arn:aws:iam::111111111111:role/deploy-role'']"
    by blast
  let ?role = "deploy_role (accepting_client [])"
  have g: "get_role (client ?role) (name ?role) = Returns trust_response"
    by (simp add: deploy_role_fields accepting_client_def)
  have ro: "trust_response ''Role'' = Some trust_detail"
    by (simp add: trust_response_def)
  from get_rbp_success [OF g ro] obtain r where
    r: "returned (get_rbp ?role) = Inr r"
    and p: "pd_policy (policy_document r) = Some trust_policy"
    and o: "pd_override_account_id_instead_of_principal (policy_document r) = False"
    by (simp add: trust_detail_def deploy_role_fields)
  have i: "?role = IAMRole_init ''deploy-role'' ''us-east-1'' (accepting_client [])
             ''111111111111'' None False trust_policy"
    by (simp add: deploy_role_def)
  from injected_resource_block [of ?role "''evil-corp''" "''deploy-role''" "''us-east-1''"
      "accepting_client []" "''111111111111''" None False trust_policy] r
  have "statements (inject_grant (policy_document r) ''evil-corp'' (arn ?role))
          = document_statements (policy_document r) @
            [evil_statement (policy_document r) ''evil-corp'' (arn ?role)]"
    and "st_resource (evil_statement (policy_document r) ''evil-corp'' (arn ?role)) = None"
    and "st_action (evil_statement (policy_document r) ''evil-corp'' (arn ?role))
          = [''sts:AssumeRole'']"
    unfolding i [symmetric] by blast+
  with p o have "statements (inject_grant (policy_document r) ''evil-corp'' (arn ?role))
        = [trust_statement,
           \<lparr>st_effect = Allow, st_principal = [PrincipalBlock ''evil-corp''],
            st_action = [''sts:AssumeRole''], st_resource = None, st_condition = None\<rparr>]"
    by (simp add: document_statements_def trust_policy_def evil_statement_def)
  with r second show ?thesis by blast
qed




text \<open>
  C4. \<^verbatim>\<open>set_rbp\<close> reports the outcome of the write as a value. If the provider accepts
  the write, the returned message has \<^verbatim>\<open>success = True\<close> and the text \<^verbatim>\<open>"success"\<close>. If the
  provider rejects it with a \<^verbatim>\<open>ClientError\<close> (\<^verbatim>\<open>NoSuchEntityException\<close> is one), no exception
  leaves the call: the returned message has \<^verbatim>\<open>success = False\<close>, its text is the error's
  text, and the error is logged at critical level. Every returned message carries the
  instance's \<^verbatim>\<open>original_policy\<close> and the policy whose write was attempted.
\<close>
theorem set_rbp_reports_outcome:
  "(update_assume_role_policy (client self) (name self) (json_dumps evil_policy) = Returns u \<longrightarrow>
      (\<exists>m. returned (set_rbp json_dumps self evil_policy) = Inr m
         \<and> rm_success m \<and> rm_message m = ''success''))
   \<and> (update_assume_role_policy (client self) (name self) (json_dumps evil_policy)
         = RaisesClientError e
       \<or> update_assume_role_policy (client self) (name self) (json_dumps evil_policy)
         = RaisesNoSuchEntity e \<longrightarrow>
      (\<exists>m. returned (set_rbp json_dumps self evil_policy) = Inr m
         \<and> \<not> rm_success m \<and> rm_message m = e)
      \<and> (CRITICAL, e) \<in> set (logged (set_rbp json_dumps self evil_policy)))
   \<and> (\<forall>m. returned (set_rbp json_dumps self evil_policy) = Inr m \<longrightarrow>
         rm_original_policy m = original_policy self \<and> rm_updated_policy m = evil_policy)"
  by (auto simp: set_rbp_def Let_def split: outcome.splits)

theorem set_rbp_reports_outcome_witness:
  "update_assume_role_policy (client (deploy_role (accepting_client [])))
       (name (deploy_role (accepting_client []))) (plain_dumps backdoored_policy) = Returns ()
   \<and> update_assume_role_policy (client (deploy_role rejecting_client))
       (name (deploy_role rejecting_client)) (plain_dumps backdoored_policy)
     = RaisesClientError ''MalformedPolicyDocument''
   \<and> returned (set_rbp plain_dumps (deploy_role (accepting_client [])) backdoored_policy) =
       Inr \<lparr>rm_message = ''success'', rm_operation = ''set_rbp'', rm_success = True,
            rm_evil_principal = [],
            rm_victim_resource_arn = ''arn:aws:iam::111111111111:role/deploy-role'',
            rm_original_policy = trust_policy, rm_updated_policy = backdoored_policy,
            rm_resource_type = ''role'', rm_resource_name = ''deploy-role'',
            rm_service = ''iam''\<rparr>
   \<and> returned (set_rbp plain_dumps (deploy_role rejecting_client) backdoored_policy) =
       Inr \<lparr>rm_message = ''MalformedPolicyDocument'', rm_operation = ''set_rbp'',
            rm_success = False, rm_evil_principal = [],
            rm_victim_resource_arn = ''arn:aws:iam::111111111111:role/deploy-role'',
            rm_original_policy = trust_policy, rm_updated_policy = backdoored_policy,
            rm_resource_type = ''role'', rm_resource_name = ''deploy-role'',
            rm_service = ''iam''\<rparr>"
  using set_rbp_reports_outcome [of "deploy_role (accepting_client [])" plain_dumps
          backdoored_policy "()" "''x''"]
        set_rbp_reports_outcome [of "deploy_role rejecting_client" plain_dumps
          backdoored_policy "()" "''MalformedPolicyDocument''"]
  by (simp add: fixture_defs set_rbp_def Let_def arn_def)

text \<open>
  C5. The path filter of \<^verbatim>\<open>IAMRoles.resources\<close>. In a run whose pages all have their
  \<^verbatim>\<open>Roles\<close> and whose entries all have their \<^verbatim>\<open>Path\<close>, take any listed entry \<open>r\<close>, with the
  entries listed before and after it. The result is what the entries before \<open>r\<close>
  contribute, then the record of \<open>r\<close> exactly when the path of \<open>r\<close> does not begin with
  \<^verbatim>\<open>/aws-service-role/\<close> and nothing when it does, then what the entries after \<open>r\<close>
  contribute.
\<close>
theorem service_linked_roles_excluded:
  assumes "well_formed (list_roles_pages (roles_client self))"
    and "listed (list_roles_pages (roles_client self)) = before @ r # after"
    and "r ''Path'' = Some path"
  shows "resources self =
           Inr (kept self before @
                (if startswith path ''/aws-service-role/'' then []
                 else [list_resources_response self r]) @
                kept self after)"
proof -
  have "kept self (before @ [r] @ after) =
          kept self before @ kept self [r] @ kept self after"
    by (simp only: kept_append)
  with assms(2) kept_single [of r path self, OF assms(3)] resources_well_formed [OF assms(1)]
  show ?thesis by simp
qed

theorem service_linked_roles_excluded_witness:
  "well_formed (list_roles_pages (roles_client (catalog two_pages)))
   \<and> listed (list_roles_pages (roles_client (catalog two_pages)))
       = [] @ linked_entry # [plain_entry, other_entry]
   \<and> listed (list_roles_pages (roles_client (catalog two_pages)))
       = [linked_entry] @ plain_entry # [other_entry]
   \<and> linked_entry ''Path'' = Some ''/aws-service-role/org-linked/''
   \<and> plain_entry ''Path'' = Some ''/''
   \<and> linked_entry = plain_entry(''Path'' \<mapsto> ''/aws-service-role/org-linked/'')
   \<and> resources (catalog two_pages) =
       Inr [\<lparr>lr_service = ''iam'', lr_account_id = ''111111111111'',
             lr_arn = Some ''arn:aws:iam::999999999999:role/deploy-role'',
             lr_region = ''us-east-1'', lr_resource_type = ''role'',
             lr_name = Some ''deploy-role''\<rparr>,
            \<lparr>lr_service = ''iam'', lr_account_id = ''111111111111'',
             lr_arn = Some ''arn:aws:iam::111111111111:role/build'',
             lr_region = ''us-east-1'', lr_resource_type = ''role'',
             lr_name = Some ''build''\<rparr>]"
proof -
  have wf: "well_formed (list_roles_pages (roles_client (catalog two_pages)))"
    by (simp add: catalog_fields well_formed_two_pages)
  have l1: "listed (list_roles_pages (roles_client (catalog two_pages)))
       = [] @ linked_entry # [plain_entry, other_entry]"
    by (simp add: catalog_fields listed_two_pages)
  have l2: "listed (list_roles_pages (roles_client (catalog two_pages)))
       = [linked_entry] @ plain_entry # [other_entry]"
    by (simp add: catalog_fields listed_two_pages)
  have same: "linked_entry = plain_entry(''Path'' \<mapsto> ''/aws-service-role/org-linked/'')"
    by (rule ext) (simp add: linked_entry_def plain_entry_def role_entry_def)
  have k: "kept (catalog two_pages) [plain_entry, other_entry] =
             [list_resources_response (catalog two_pages) plain_entry,
              list_resources_response (catalog two_pages) other_entry]"
    by (simp add: kept_def entry_linked)
  from service_linked_roles_excluded [OF wf l1 entry_paths(1)] k
  have "resources (catalog two_pages) =
          Inr [list_resources_response (catalog two_pages) plain_entry,
               list_resources_response (catalog two_pages) other_entry]"
    by (simp add: startswith_def kept_def)
  with wf l1 l2 same show ?thesis
    by (simp only: entry_responses entry_paths simp_thms)
qed

text \<open>
  C6. Enumeration is exhaustive. In a run over pages that all have their \<^verbatim>\<open>Roles\<close>, with
  entries that all have their \<^verbatim>\<open>Path\<close>, \<^verbatim>\<open>IAMRoles.resources\<close> returns one record for each
  listed entry the path filter keeps, in listing order: none is omitted and none is
  produced twice. The number of records plus the number of entries the filter drops is
  the sum of the pages' role counts; when the kept entries differ pairwise in arn or
  name, the records are pairwise distinct; and any other division of the same entries
  into pages gives the same result.
\<close>
theorem enumeration_exhaustive:
  assumes "well_formed pages"
    and "list_roles_pages (roles_client self) = pages"
  shows "\<exists>rs. resources self = Inr rs
           \<and> rs = map (list_resources_response self)
                    (filter (\<lambda>r. \<not> service_linked r) (listed pages))
           \<and> length rs + length (filter service_linked (listed pages))
               = sum_list (map (\<lambda>pg. length (page_roles pg)) pages)
           \<and> (distinct (map (\<lambda>r. (r ''Arn'', r ''RoleName''))
                  (filter (\<lambda>r. \<not> service_linked r) (listed pages))) \<longrightarrow> distinct rs)
           \<and> (\<forall>pages'. well_formed pages' \<and> listed pages' = listed pages \<longrightarrow>
                 resources
                   (self\<lparr>roles_client := (roles_client self)\<lparr>list_roles_pages := pages'\<rparr>\<rparr>)
                 = Inr rs)"
proof -
  from assms have wf: "well_formed (list_roles_pages (roles_client self))" by simp
  have res: "resources self = Inr (kept self (listed pages))"
    using resources_well_formed [OF wf] assms(2) by simp
  have len: "length (kept self (listed pages)) + length (filter service_linked (listed pages))
               = sum_list (map (\<lambda>pg. length (page_roles pg)) pages)"
    by (simp only: length_kept length_listed)
  have moved: "resources (self\<lparr>roles_client := (roles_client self)\<lparr>list_roles_pages := pages'\<rparr>\<rparr>)
                 = Inr (kept self (listed pages))"
    if "well_formed pages' \<and> listed pages' = listed pages" for pages'
  proof -
    let ?self' = "self\<lparr>roles_client := (roles_client self)\<lparr>list_roles_pages := pages'\<rparr>\<rparr>"
    from that have "well_formed (list_roles_pages (roles_client ?self'))" by simp
    from resources_well_formed [OF this] that
    have "resources ?self' = Inr (kept ?self' (listed pages))" by simp
    moreover have "kept ?self' (listed pages) = kept self (listed pages)"
      by (simp add: kept_def list_resources_response_def)
    ultimately show ?thesis by simp
  qed
  from res len moved distinct_kept [of "listed pages" self] show ?thesis
    by (simp add: kept_def)
qed

theorem enumeration_exhaustive_witness:
  "well_formed two_pages
   \<and> list_roles_pages (roles_client (catalog two_pages)) = two_pages
   \<and> sum_list (map (\<lambda>pg. length (page_roles pg)) two_pages) = 3
   \<and> length (filter service_linked (listed two_pages)) = 1
   \<and> (\<exists>rs. resources (catalog two_pages) = Inr rs \<and> length rs = 2 \<and> distinct rs
         \<and> resources (catalog [ [''Roles'' \<mapsto> [linked_entry] ],
                               [''Roles'' \<mapsto> [plain_entry, other_entry]] ]) = Inr rs)"
proof -
  let ?pages' = "[ [''Roles'' \<mapsto> [linked_entry] ], [''Roles'' \<mapsto> [plain_entry, other_entry]] ]"
  have a: "list_roles_pages (roles_client (catalog two_pages)) = two_pages"
    by (simp add: catalog_fields)
  have n: "sum_list (map (\<lambda>pg. length (page_roles pg)) two_pages) = 3"
    by (simp add: two_pages_def page_roles_def)
  have x: "length (filter service_linked (listed two_pages)) = 1"
    by (simp add: listed_two_pages entry_linked)
  have l': "listed ?pages' = listed two_pages"
    by (simp add: listed_two_pages) (simp add: listed_def page_roles_def)
  have wf': "well_formed ?pages'"
    unfolding well_formed_def l'
    by (simp add: listed_two_pages entry_has_path) (simp add: has_roles_def)
  have c: "(catalog two_pages)\<lparr>roles_client :=
             (roles_client (catalog two_pages))\<lparr>list_roles_pages := ?pages'\<rparr>\<rparr>
           = catalog ?pages'"
    by (simp add: catalog_def IAMRoles_init_def accepting_client_def)
  have d: "distinct (map (\<lambda>r. (r ''Arn'', r ''RoleName''))
             (filter (\<lambda>r. \<not> service_linked r) (listed two_pages)))"
    by (simp add: listed_two_pages entry_linked)
       (simp add: plain_entry_def other_entry_def role_entry_def)
  from enumeration_exhaustive [OF well_formed_two_pages a] obtain rs where
    r: "resources (catalog two_pages) = Inr rs"
    and l: "length rs + length (filter service_linked (listed two_pages))
               = sum_list (map (\<lambda>pg. length (page_roles pg)) two_pages)"
    and dd: "distinct (map (\<lambda>r. (r ''Arn'', r ''RoleName''))
                  (filter (\<lambda>r. \<not> service_linked r) (listed two_pages))) \<longrightarrow> distinct rs"
    and m: "\<forall>pages'. well_formed pages' \<and> listed pages' = listed two_pages \<longrightarrow>
                 resources ((catalog two_pages)\<lparr>roles_client :=
                    (roles_client (catalog two_pages))\<lparr>list_roles_pages := pages'\<rparr>\<rparr>)
                 = Inr rs"
    by blast
  from m wf' l' have "resources ((catalog two_pages)\<lparr>roles_client :=
                    (roles_client (catalog two_pages))\<lparr>list_roles_pages := ?pages'\<rparr>\<rparr>)
                 = Inr rs" by blast
  then have m': "resources (catalog ?pages') = Inr rs" by (simp only: c)
  from l n x have "length rs = 2" by simp
  with r dd d m' well_formed_two_pages a n x show ?thesis by blast
qed

text \<open>
  C7, as stated, fails on two runs of three entries on one page. When the second entry
  has no \<^verbatim>\<open>Path\<close>, \<^verbatim>\<open>None.startswith\<close> raises \<^verbatim>\<open>AttributeError\<close> and the whole scan fails.
  When the second entry has neither \<^verbatim>\<open>Arn\<close> nor \<^verbatim>\<open>RoleName\<close>, it is not skipped: it is
  returned with a null arn and a null name.
\<close>
theorem malformed_entry_counterexample:
  "resources (catalog (three_roles_page pathless_entry)) = Inl AttributeError
   \<and> resources (catalog (three_roles_page nameless_entry)) =
       Inr [\<lparr>lr_service = ''iam'', lr_account_id = ''111111111111'',
             lr_arn = Some ''arn:aws:iam::999999999999:role/deploy-role'',
             lr_region = ''us-east-1'', lr_resource_type = ''role'',
             lr_name = Some ''deploy-role''\<rparr>,
            \<lparr>lr_service = ''iam'', lr_account_id = ''111111111111'',
             lr_arn = None, lr_region = ''us-east-1'', lr_resource_type = ''role'',
             lr_name = None\<rparr>,
            \<lparr>lr_service = ''iam'', lr_account_id = ''111111111111'',
             lr_arn = Some ''arn:aws:iam::111111111111:role/build'',
             lr_region = ''us-east-1'', lr_resource_type = ''role'',
             lr_name = Some ''build''\<rparr>]"
proof -
  have "resources (catalog (three_roles_page pathless_entry)) = Inl AttributeError"
    by (simp add: resources_def catalog_fields three_roles_page_def entry_paths startswith_def)
  moreover have "well_formed (list_roles_pages (roles_client
                   (catalog (three_roles_page nameless_entry))))"
    by (simp add: catalog_fields well_formed_three_roles_page entry_has_path)
  from resources_well_formed [OF this]
  have "resources (catalog (three_roles_page nameless_entry)) =
          Inr [list_resources_response (catalog (three_roles_page nameless_entry)) plain_entry,
               list_resources_response (catalog (three_roles_page nameless_entry)) nameless_entry,
               list_resources_response (catalog (three_roles_page nameless_entry)) other_entry]"
    by (simp add: catalog_fields listed_three_roles_page kept_def entry_linked)
  ultimately show ?thesis by (simp only: entry_responses simp_thms)
qed

text \<open>
  C7, amended. In every run whose pages all have their \<^verbatim>\<open>Roles\<close> and whose entries all
  have their \<^verbatim>\<open>Path\<close>, the scan does not fail. No entry is skipped for a missing \<^verbatim>\<open>Arn\<close> or
  \<^verbatim>\<open>RoleName\<close>: the result has one record for each entry the path filter keeps, and the
  record of such an entry carries what \<^verbatim>\<open>role.get("Arn")\<close> and \<^verbatim>\<open>role.get("RoleName")\<close>
  give, \<^verbatim>\<open>None\<close> for a missing member.
\<close>
theorem entries_missing_arn_or_name_listed:
  assumes "well_formed (list_roles_pages (roles_client self))"
  shows "\<exists>rs. resources self = Inr rs
           \<and> length rs = length (filter (\<lambda>r. \<not> service_linked r)
                                   (listed (list_roles_pages (roles_client self))))
           \<and> (\<forall>r \<in> set (listed (list_roles_pages (roles_client self))).
                 \<not> service_linked r \<longrightarrow>
                 \<lparr>lr_service = roles_service self,
                  lr_account_id = roles_current_account_id self,
                  lr_arn = r ''Arn'', lr_region = roles_region self,
                  lr_resource_type = roles_resource_type self,
                  lr_name = r ''RoleName''\<rparr> \<in> set rs)"
proof -
  have "list_resources_response self r \<in> set (kept self roles)"
    if "r \<in> set roles" "\<not> service_linked r" for r roles
    using that by (simp add: kept_def)
  with resources_well_formed [OF assms] show ?thesis
    by (simp add: list_resources_response_def) (simp add: kept_def)
qed

theorem entries_missing_arn_or_name_listed_witness:
  "well_formed (list_roles_pages (roles_client (catalog (three_roles_page nameless_entry))))
   \<and> nameless_entry \<in> set (listed (list_roles_pages (roles_client
         (catalog (three_roles_page nameless_entry)))))
   \<and> \<not> service_linked nameless_entry
   \<and> nameless_entry ''Arn'' = None \<and> nameless_entry ''RoleName'' = None
   \<and> (\<exists>rs. resources (catalog (three_roles_page nameless_entry)) = Inr rs
         \<and> length rs = 3
         \<and> \<lparr>lr_service = ''iam'', lr_account_id = ''111111111111'',
             lr_arn = None, lr_region = ''us-east-1'', lr_resource_type = ''role'',
             lr_name = None\<rparr> \<in> set rs)"
proof -
  let ?c = "catalog (three_roles_page nameless_entry)"
  have wf: "well_formed (list_roles_pages (roles_client ?c))"
    by (simp add: catalog_fields well_formed_three_roles_page entry_has_path)
  have li: "listed (list_roles_pages (roles_client ?c)) = [plain_entry, nameless_entry, other_entry]"
    by (simp add: catalog_fields listed_three_roles_page)
  have n: "nameless_entry ''Arn'' = None" "nameless_entry ''RoleName'' = None"
    by (simp_all add: nameless_entry_def)
  from entries_missing_arn_or_name_listed [OF wf] obtain rs where
    r: "resources ?c = Inr rs"
    and l: "length rs = length (filter (\<lambda>r. \<not> service_linked r)
                                   (listed (list_roles_pages (roles_client ?c))))"
    and m: "\<forall>r \<in> set (listed (list_roles_pages (roles_client ?c))).
                 \<not> service_linked r \<longrightarrow>
                 \<lparr>lr_service = roles_service ?c,
                  lr_account_id = roles_current_account_id ?c,
                  lr_arn = r ''Arn'', lr_region = roles_region ?c,
                  lr_resource_type = roles_resource_type ?c,
                  lr_name = r ''RoleName''\<rparr> \<in> set rs"
    by blast
  from l have l3: "length rs = 3" by (simp add: li entry_linked)
  from m li entry_linked(4) have
    "\<lparr>lr_service = roles_service ?c, lr_account_id = roles_current_account_id ?c,
      lr_arn = nameless_entry ''Arn'', lr_region = roles_region ?c,
      lr_resource_type = roles_resource_type ?c,
      lr_name = nameless_entry ''RoleName''\<rparr> \<in> set rs"
    by simp
  then have "\<lparr>lr_service = ''iam'', lr_account_id = ''111111111111'',
             lr_arn = None, lr_region = ''us-east-1'', lr_resource_type = ''role'',
             lr_name = None\<rparr> \<in> set rs"
    by (simp only: catalog_fields n)
  with r l3 wf li n entry_linked(4) show ?thesis by auto
qed

text \<open>
  C8. The behavioural flags are fixed. After any sequence of later \<^verbatim>\<open>_get_rbp\<close> and
  \<^verbatim>\<open>set_rbp\<close> calls, \<^verbatim>\<open>include_resource_block\<close>, \<^verbatim>\<open>override_action\<close>,
  \<^verbatim>\<open>override_resource_block\<close> and \<^verbatim>\<open>override_account_id_instead_of_principal\<close> of the
  instance are what they were, and the \<^verbatim>\<open>PolicyDocument\<close> that \<^verbatim>\<open>_get_rbp\<close> then returns is
  built with exactly these four values.
\<close>
theorem flags_fixed_at_construction:
  "include_resource_block (after_calls json_dumps self cs) = include_resource_block self
   \<and> override_action (after_calls json_dumps self cs) = override_action self
   \<and> override_resource_block (after_calls json_dumps self cs) = override_resource_block self
   \<and> override_account_id_instead_of_principal (after_calls json_dumps self cs) =
       override_account_id_instead_of_principal self
   \<and> (\<forall>r. returned (get_rbp (after_calls json_dumps self cs)) = Inr r \<longrightarrow>
         pd_include_resource_block (policy_document r) = include_resource_block self
       \<and> pd_override_action (policy_document r) = override_action self
       \<and> pd_override_resource_block (policy_document r) = override_resource_block self
       \<and> pd_override_account_id_instead_of_principal (policy_document r) =
           override_account_id_instead_of_principal self)"
  by (simp add: after_calls_self get_rbp_flags)

theorem flags_fixed_at_construction_witness:
  "returned (get_rbp (after_calls plain_dumps (deploy_role (accepting_client []))
       [GetPolicy, SetPolicy backdoored_policy, GetPolicy])) =
     Inr \<lparr>policy_document =
           \<lparr>pd_policy = Some trust_policy, pd_service = ''iam'',
            pd_override_action = Some ''sts:AssumeRole'', pd_include_resource_block = False,
            pd_override_resource_block = None,
            pd_override_account_id_instead_of_principal = False\<rparr>,
          success = True\<rparr>
   \<and> include_resource_block (after_calls plain_dumps (deploy_role (accepting_client []))
       [GetPolicy, SetPolicy backdoored_policy, GetPolicy]) = False
   \<and> override_action (after_calls plain_dumps (deploy_role (accepting_client []))
       [GetPolicy, SetPolicy backdoored_policy, GetPolicy]) = Some ''sts:AssumeRole''"
proof -
  let ?role = "deploy_role (accepting_client [])"
  let ?calls = "[GetPolicy, SetPolicy backdoored_policy, GetPolicy]"
  let ?r = "\<lparr>policy_document =
           \<lparr>pd_policy = Some trust_policy, pd_service = ''iam'',
            pd_override_action = Some ''sts:AssumeRole'', pd_include_resource_block = False,
            pd_override_resource_block = None,
            pd_override_account_id_instead_of_principal = False\<rparr>,
          success = True\<rparr>"
  have g: "get_role (client ?role) (name ?role) = Returns trust_response"
    by (simp add: deploy_role_fields accepting_client_def)
  have ro: "trust_response ''Role'' = Some trust_detail"
    by (simp add: trust_response_def)
  have "returned (get_rbp ?role) = Inr ?r"
    by (simp only: get_rbp_success [OF g ro] deploy_role_fields)
       (simp add: trust_detail_def)
  then have h: "returned (get_rbp (after_calls plain_dumps ?role ?calls)) = Inr ?r"
    by (simp only: after_calls_self)
  from flags_fixed_at_construction [of plain_dumps ?role ?calls] h
  have "include_resource_block (after_calls plain_dumps ?role ?calls)
          = include_resource_block ?role"
    and "override_action (after_calls plain_dumps ?role ?calls) = override_action ?role"
    and "pd_include_resource_block (policy_document ?r) = include_resource_block ?role"
    by blast+
  with h show ?thesis by (simp only: deploy_role_fields simp_thms)
qed

text \<open>
  C9, as stated, fails: the policy written names the principal \<^verbatim>\<open>evil-corp\<close> in its last
  statement, the provider accepts the write, and the \<^verbatim>\<open>evil_principal\<close> of the returned
  message is the empty string.
\<close>
theorem set_rbp_evil_principal_counterexample:
  "map_sum id rm_evil_principal
     (returned (set_rbp plain_dumps (deploy_role (accepting_client [])) backdoored_policy))
     = Inr []
   \<and> st_principal (last (statements backdoored_policy)) = [PrincipalBlock ''evil-corp'']"
  by (simp add: fixture_defs set_rbp_def Let_def)

text \<open>
  C9, amended. \<^verbatim>\<open>set_rbp\<close> receives the document to write and not the principal; every
  message it returns has the empty string as its \<^verbatim>\<open>evil_principal\<close>, whatever principal
  the written policy names.
\<close>
theorem set_rbp_evil_principal_empty:
  "returned (set_rbp json_dumps self evil_policy) = Inr m \<Longrightarrow> rm_evil_principal m = []"
  by (auto simp: set_rbp_def Let_def split: outcome.splits)

theorem set_rbp_evil_principal_empty_witness:
  "returned (set_rbp plain_dumps (deploy_role rejecting_client) backdoored_policy) =
       Inr \<lparr>rm_message = ''MalformedPolicyDocument'', rm_operation = ''set_rbp'',
            rm_success = False, rm_evil_principal = [],
            rm_victim_resource_arn = ''arn:aws:iam::111111111111:role/deploy-role'',
            rm_original_policy = trust_policy, rm_updated_policy = backdoored_policy,
            rm_resource_type = ''role'', rm_resource_name = ''deploy-role'',
            rm_service = ''iam''\<rparr>
   \<and> rm_evil_principal
       \<lparr>rm_message = ''MalformedPolicyDocument'', rm_operation = ''set_rbp'',
            rm_success = False, rm_evil_principal = [],
            rm_victim_resource_arn = ''arn:aws:iam::111111111111:role/deploy-role'',
            rm_original_policy = trust_policy, rm_updated_policy = backdoored_policy,
            rm_resource_type = ''role'', rm_resource_name = ''deploy-role'',
            rm_service = ''iam''\<rparr> = []"
proof -
  have h: "returned (set_rbp plain_dumps (deploy_role rejecting_client) backdoored_policy) =
       Inr \<lparr>rm_message = ''MalformedPolicyDocument'', rm_operation = ''set_rbp'',
            rm_success = False, rm_evil_principal = [],
            rm_victim_resource_arn = ''arn:aws:iam::111111111111:role/deploy-role'',
            rm_original_policy = trust_policy, rm_updated_policy = backdoored_policy,
            rm_resource_type = ''role'', rm_resource_name = ''deploy-role'',
            rm_service = ''iam''\<rparr>"
    by (simp add: fixture_defs set_rbp_def Let_def arn_def)
  show ?thesis using h set_rbp_evil_principal_empty [OF h] by simp
qed

text \<open>
  C10. In every record \<^verbatim>\<open>IAMRoles.resources\<close> returns, \<^verbatim>\<open>account_id\<close> and \<^verbatim>\<open>region\<close> are the
  catalog's \<^verbatim>\<open>current_account_id\<close> and \<^verbatim>\<open>region\<close>, which are the values given at its
  construction; the arns and the names of the records are, in order, what the kept
  entries hold under \<^verbatim>\<open>Arn\<close> and \<^verbatim>\<open>RoleName\<close>. The account of a record is the catalog's,
  whatever account the entry's own arn names.
\<close>
theorem listing_fields_origin:
  assumes "resources self = Inr rs"
  shows "list_all (\<lambda>x. lr_account_id x = roles_current_account_id self
                      \<and> lr_region x = roles_region self) rs
         \<and> map lr_arn rs = map (\<lambda>r. r ''Arn'')
             (filter (\<lambda>r. \<not> service_linked r) (listed (list_roles_pages (roles_client self))))
         \<and> map lr_name rs = map (\<lambda>r. r ''RoleName'')
             (filter (\<lambda>r. \<not> service_linked r) (listed (list_roles_pages (roles_client self))))
         \<and> roles_current_account_id (IAMRoles_init cl acct rgn) = acct
         \<and> roles_region (IAMRoles_init cl acct rgn) = rgn"
proof -
  from resources_Inr(2) [OF assms]
  have rs: "rs = kept self (listed (list_roles_pages (roles_client self)))" .
  have "list_all (\<lambda>x. lr_account_id x = roles_current_account_id self
                      \<and> lr_region x = roles_region self) (kept self roles)" for roles
    by (simp add: kept_def list_all_iff list_resources_response_def)
  moreover have "map lr_arn (kept self roles)
      = map (\<lambda>r. r ''Arn'') (filter (\<lambda>r. \<not> service_linked r) roles)" for roles
    by (simp add: kept_def list_resources_response_def comp_def)
  moreover have "map lr_name (kept self roles)
      = map (\<lambda>r. r ''RoleName'') (filter (\<lambda>r. \<not> service_linked r) roles)" for roles
    by (simp add: kept_def list_resources_response_def comp_def)
  ultimately show ?thesis
    unfolding rs by (simp add: IAMRoles_init_def)
qed

theorem listing_fields_origin_witness:
  "resources (catalog two_pages) =
       Inr [\<lparr>lr_service = ''iam'', lr_account_id = ''111111111111'',
             lr_arn = Some ''arn:aws:iam::999999999999:role/deploy-role'',
             lr_region = ''us-east-1'', lr_resource_type = ''role'',
             lr_name = Some ''deploy-role''\<rparr>,
            \<lparr>lr_service = ''iam'', lr_account_id = ''111111111111'',
             lr_arn = Some ''arn:aws:iam::111111111111:role/build'',
             lr_region = ''us-east-1'', lr_resource_type = ''role'',
             lr_name = Some ''build''\<rparr>]
   \<and> list_all (\<lambda>x. lr_account_id x = ''111111111111'' \<and> lr_region x = ''us-east-1'')
       [\<lparr>lr_service = ''iam'', lr_account_id = ''111111111111'',
             lr_arn = Some ''arn:aws:iam::999999999999:role/deploy-role'',
             lr_region = ''us-east-1'', lr_resource_type = ''role'',
             lr_name = Some ''deploy-role''\<rparr>,
            \<lparr>lr_service = ''iam'', lr_account_id = ''111111111111'',
             lr_arn = Some ''arn:aws:iam::111111111111:role/build'',
             lr_region = ''us-east-1'', lr_resource_type = ''role'',
             lr_name = Some ''build''\<rparr>]"
proof -
  have wf: "well_formed (list_roles_pages (roles_client (catalog two_pages)))"
    by (simp add: catalog_fields well_formed_two_pages)
  from resources_well_formed [OF wf]
  have "resources (catalog two_pages) =
          Inr [list_resources_response (catalog two_pages) plain_entry,
               list_resources_response (catalog two_pages) other_entry]"
    by (simp add: catalog_fields listed_two_pages kept_def entry_linked)
  then have r: "resources (catalog two_pages) =
       Inr [\<lparr>lr_service = ''iam'', lr_account_id = ''111111111111'',
             lr_arn = Some ''arn:aws:iam::999999999999:role/deploy-role'',
             lr_region = ''us-east-1'', lr_resource_type = ''role'',
             lr_name = Some ''deploy-role''\<rparr>,
            \<lparr>lr_service = ''iam'', lr_account_id = ''111111111111'',
             lr_arn = Some ''arn:aws:iam::111111111111:role/build'',
             lr_region = ''us-east-1'', lr_resource_type = ''role'',
             lr_name = Some ''build''\<rparr>]"
    by (simp only: entry_responses)
  from listing_fields_origin [OF r] r show ?thesis
    by (simp only: catalog_fields simp_thms)
qed

end
